theory Spec2Isabelle
  imports Complex_Main "HOL-Library.Char_ord" "HOL-Library.List_Lexorder"
begin

section \<open>Data model of \<^verbatim>\<open>ci/simulator.py\<close>\<close>

text \<open>
  Python strings are \<open>string\<close>; their comparison (used by \<^verbatim>\<open>sorted\<close>) is the
  lexicographic order on characters, which \<open>Char_ord\<close> and \<open>List_Lexorder\<close> provide.
  Python integers are \<open>int\<close>, floats (durations, clock readings) are \<open>real\<close>.
\<close>

datatype StageStatus = PENDING | RUNNING | PASSED | FAILED | SKIPPED

fun StageStatus_value :: "StageStatus \<Rightarrow> string" where
  "StageStatus_value PENDING = ''pending''"
| "StageStatus_value RUNNING = ''running''"
| "StageStatus_value PASSED = ''passed''"
| "StageStatus_value FAILED = ''failed''"
| "StageStatus_value SKIPPED = ''skipped''"

text \<open>
  The field \<^verbatim>\<open>output\<close> of \<^verbatim>\<open>StageResult\<close> is written \<open>output'\<close>, since
  \<open>output\<close> is a reserved word.
\<close>

record StageResult =
  name :: string
  status :: StageStatus
  duration :: real
  output' :: string
  error :: string
  command :: string
  role :: string

record PipelineResult =
  start_time :: string
  end_time :: string
  total_duration :: real
  stages :: "StageResult list"
  passed :: int
  failed :: int
  skipped :: int
  overall_status :: string

text \<open>The exceptions that the modelled functions can let escape.\<close>

datatype pyerror = FileNotFoundError | NotADirectoryError | ValueError

section \<open>The environment of a run\<close>

text \<open>
  A \<^verbatim>\<open>pathlib.Path\<close> is modelled by its string form. The directory below
  \<^verbatim>\<open>roles_dir\<close> that discovery walks is a finite tree; the order of a directory's
  entries is the order in which \<^verbatim>\<open>iterdir\<close> yields them.
\<close>

type_synonym path = string

datatype fsnode = File | Dir "(string \<times> fsnode) list"

text \<open>
  One call of \<^verbatim>\<open>subprocess.run\<close>: the command, the working directory and the
  environment it is given.
\<close>

record spawn =
  sp_command :: string
  sp_cwd :: path
  sp_env :: "string \<rightharpoonup> string"

text \<open>
  What \<^verbatim>\<open>subprocess.run(..., timeout=600)\<close> does: it returns a completed process
  (return code, stdout, stderr), raises \<^verbatim>\<open>TimeoutExpired\<close>, or raises another
  \<^verbatim>\<open>Exception\<close> whose \<^verbatim>\<open>str\<close> is the carried message.
\<close>

datatype proc_outcome = Completed int string string | TimeoutExpired | Raised string

text \<open>
  Everything the program reads from outside is a field of the world: the two constructor
  arguments \<open>project_root\<close> and \<open>dry_run\<close>, \<^verbatim>\<open>pathlib\<close>'s join and
  \<^verbatim>\<open>exists\<close>, the tree at \<^verbatim>\<open>roles_dir\<close> (\<open>None\<close> when that directory does not
  exist), \<^verbatim>\<open>os.environ\<close>, the behaviour of \<^verbatim>\<open>subprocess.run\<close> (which may depend on
  the calls made before), the readings of \<^verbatim>\<open>time.time()\<close> (by the number of earlier
  readings) and the order in which the futures of a worker pool complete.
\<close>

record world =
  project_root :: path
  dry_run :: bool
  path_join :: "path \<Rightarrow> string \<Rightarrow> path"
  path_exists :: "path \<Rightarrow> bool"
  roles_tree :: "fsnode option"
  os_environ :: "string \<rightharpoonup> string"
  subprocess_run :: "spawn list \<Rightarrow> spawn \<Rightarrow> proc_outcome"
  time_time :: "nat \<Rightarrow> real"
  as_completed :: "spawn list \<Rightarrow> string list \<Rightarrow> string list"

text \<open>
  The effects of a run are passed explicitly: the calls of \<^verbatim>\<open>subprocess.run\<close> made
  so far, oldest first, and the number of clock readings taken.
\<close>

record state =
  subprocess_calls :: "spawn list"
  clock_reads :: nat

definition roles_dir :: "world \<Rightarrow> path" where
  "roles_dir w = path_join w (project_root w) ''roles''"

definition time_now :: "world \<Rightarrow> state \<Rightarrow> real \<times> state" where
  "time_now w s = (time_time w (clock_reads s), s\<lparr>clock_reads := Suc (clock_reads s)\<rparr>)"

section \<open>Command executor\<close>

text \<open>
  \<^verbatim>\<open>run_command(command, cwd=None, env=None)\<close>. In dry-run mode it returns before
  anything else happens. Otherwise \<^verbatim>\<open>env\<close> is laid over a copy of
  \<^verbatim>\<open>os.environ\<close> (an empty overlay changes nothing, as the guard \<^verbatim>\<open>if env\<close>
  has it), \<^verbatim>\<open>cwd or self.project_root\<close> is the working directory (\<open>spawn_of\<close>), and
  the three outcomes of \<^verbatim>\<open>subprocess.run\<close> are the \<^verbatim>\<open>try\<close> body and its two
  handlers. Signals (\<^verbatim>\<open>KeyboardInterrupt\<close>) are asynchronous and not part of the model.
\<close>

definition spawn_of ::
  "world \<Rightarrow> string \<Rightarrow> path option \<Rightarrow> (string \<rightharpoonup> string) option \<Rightarrow> spawn" where
  "spawn_of w cmd cwd env =
     \<lparr>sp_command = cmd,
      sp_cwd = (case cwd of None \<Rightarrow> project_root w | Some d \<Rightarrow> d),
      sp_env = (case env of None \<Rightarrow> os_environ w | Some e \<Rightarrow> os_environ w ++ e)\<rparr>"

definition run_command ::
  "world \<Rightarrow> string \<Rightarrow> path option \<Rightarrow> (string \<rightharpoonup> string) option \<Rightarrow> state
    \<Rightarrow> (int \<times> string \<times> string) \<times> state" where
  "run_command w cmd cwd env s =
    (if dry_run w then ((0, ''[DRY RUN] Would execute: '' @ cmd, ''''), s)
     else
       let call = spawn_of w cmd cwd env;
           s' = s\<lparr>subprocess_calls := subprocess_calls s @ [call]\<rparr>
       in case subprocess_run w (subprocess_calls s) call of
            Completed returncode out err \<Rightarrow> ((returncode, out, err), s')
          | TimeoutExpired \<Rightarrow> ((1, '''', ''Command timed out after 600 seconds''), s')
          | Raised msg \<Rightarrow> ((1, '''', msg), s'))"

section \<open>Unit discovery\<close>

text \<open>
  \<^verbatim>\<open>iterdir\<close> raises on a path that does not exist or is not a directory;
  \<^verbatim>\<open>is_dir\<close> and \<^verbatim>\<open>exists\<close> never raise.
\<close>

fun iterdir :: "fsnode option \<Rightarrow> pyerror + (string \<times> fsnode) list" where
  "iterdir None = Inl FileNotFoundError"
| "iterdir (Some File) = Inl NotADirectoryError"
| "iterdir (Some (Dir es)) = Inr es"

fun is_dir :: "fsnode \<Rightarrow> bool" where
  "is_dir (Dir es) = True"
| "is_dir File = False"

fun entries :: "fsnode \<Rightarrow> (string \<times> fsnode) list" where
  "entries (Dir es) = es"
| "entries File = []"

text \<open>The node at \<^verbatim>\<open>p / n\<close>, if there is one.\<close>

fun child :: "fsnode \<Rightarrow> string \<Rightarrow> fsnode option" where
  "child (Dir es) n = map_of es n"
| "child File n = None"

text \<open>\<^verbatim>\<open>(p / "molecule" / "default").exists()\<close>\<close>

definition molecule_dir_exists :: "fsnode \<Rightarrow> bool" where
  "molecule_dir_exists p =
     (case child p ''molecule'' of
        None \<Rightarrow> False
      | Some m \<Rightarrow> child m ''default'' \<noteq> None)"

text \<open>\<^verbatim>\<open>name.startswith('.')\<close>\<close>

fun startswith_dot :: "string \<Rightarrow> bool" where
  "startswith_dot [] = False"
| "startswith_dot (c # cs) = (c = CHR ''.'')"

text \<open>
  The three nested loops of \<^verbatim>\<open>discover_roles\<close>, innermost first: each gives the
  identifiers that one entry of the directory listing appends to \<^verbatim>\<open>roles\<close>.
\<close>

definition subrole_roles :: "string \<Rightarrow> string \<Rightarrow> string \<times> fsnode \<Rightarrow> string list" where
  "subrole_roles cname rname sub =
     (if is_dir (snd sub) then
        (if molecule_dir_exists (snd sub) then [cname @ ''/'' @ rname @ ''/'' @ fst sub] else [])
      else [])"

definition role_roles :: "string \<Rightarrow> string \<times> fsnode \<Rightarrow> string list" where
  "role_roles cname rl =
     (if is_dir (snd rl) then
        (if molecule_dir_exists (snd rl) then [cname @ ''/'' @ fst rl]
         else concat (map (subrole_roles cname (fst rl)) (entries (snd rl))))
      else [])"

definition category_roles :: "string \<times> fsnode \<Rightarrow> string list" where
  "category_roles category =
     (if is_dir (snd category) \<and> \<not> startswith_dot (fst category) then
        concat (map (role_roles (fst category)) (entries (snd category)))
      else [])"

definition discover_roles :: "world \<Rightarrow> pyerror + string list" where
  "discover_roles w =
     (case iterdir (roles_tree w) of
        Inl e \<Rightarrow> Inl e
      | Inr categories \<Rightarrow> Inr (sort (concat (map category_roles categories))))"

text \<open>
  What every directory tree satisfies: the names in one directory are distinct, and no
  name contains the separator \<^verbatim>\<open>/\<close>.
\<close>

fun wf_tree :: "fsnode \<Rightarrow> bool" where
  "wf_tree File = True"
| "wf_tree (Dir es) =
     (distinct (map fst es) \<and> (\<forall>e \<in> set es. CHR ''/'' \<notin> set (fst e) \<and> wf_tree (snd e)))"

section \<open>Stage runners\<close>

text \<open>
  A role argument is \<^verbatim>\<open>None\<close> or a string; the tests \<^verbatim>\<open>if role\<close> and
  \<^verbatim>\<open>role or "all"\<close> take the empty string like \<^verbatim>\<open>None\<close>.
\<close>

fun truthy :: "string option \<Rightarrow> bool" where
  "truthy None = False"
| "truthy (Some r) = (r \<noteq> [])"

definition role_path :: "world \<Rightarrow> string \<Rightarrow> path" where
  "role_path w r = path_join w (roles_dir w) r"

text \<open>The two commands of \<^verbatim>\<open>run_lint\<close>: \<^verbatim>\<open>cmd\<close> and \<^verbatim>\<open>lint_cmd\<close>.\<close>

definition yamllint_cmd :: "world \<Rightarrow> string option \<Rightarrow> string" where
  "yamllint_cmd w rl =
     (if truthy rl then ''yamllint -c .yamllint.yml '' @ role_path w (the rl)
      else ''yamllint -c .yamllint.yml roles/'')"

definition ansible_lint_cmd :: "world \<Rightarrow> string option \<Rightarrow> string" where
  "ansible_lint_cmd w rl =
     (if truthy rl then ''ansible-lint '' @ role_path w (the rl) else ''ansible-lint roles/'')"

definition run_lint :: "world \<Rightarrow> string option \<Rightarrow> state \<Rightarrow> StageResult \<times> state" where
  "run_lint w rl s0 =
    (let (start, s1) = time_now w s0;
         nm = (if truthy rl then ''lint:'' @ the rl else ''lint:all'');
         cmd = yamllint_cmd w rl;
         ((returncode, stdout, stderr), s2) = run_command w cmd None None s1;
         st = (if returncode = 0 then PASSED else FAILED);
         lint_cmd = ansible_lint_cmd w rl;
         ((lint_rc, lint_out, lint_err), s3) = run_command w lint_cmd None None s2;
         st' = (if lint_rc \<noteq> 0 then FAILED else st);
         stdout' = (if lint_rc \<noteq> 0
                    then stdout @ ''\<newline>\<newline>Ansible-lint output:\<newline>'' @ lint_out
                    else stdout);
         stderr' = (if lint_rc \<noteq> 0 then stderr @ lint_err else stderr);
         (finish, s4) = time_now w s3
     in (\<lparr>name = nm, status = st', duration = finish - start, output' = stdout',
          error = stderr', command = cmd, role = (if truthy rl then the rl else ''all'')\<rparr>, s4))"

definition converge_path :: "world \<Rightarrow> string \<Rightarrow> path" where
  "converge_path w r =
     path_join w (path_join w (path_join w (role_path w r) ''molecule'') ''default'')
       ''converge.yml''"

text \<open>
  The command of the branch without a role:
  \<^verbatim>\<open>find playbooks -name '*.yml' -exec ansible-playbook --syntax-check {} \;\<close>
  (\<open>CHR 0x27\<close> is the single quote, \<open>CHR 0x5C\<close> the backslash). In
  \<open>run_syntax\<close> the command is \<open>None\<close> where the source returns early, with the
  \<^verbatim>\<open>SKIPPED\<close> result whose \<^verbatim>\<open>error\<close> and \<^verbatim>\<open>command\<close> keep their defaults.
\<close>

definition find_playbooks_cmd :: string where
  "find_playbooks_cmd =
     ''find playbooks -name '' @ [CHR 0x27] @ ''*.yml'' @ [CHR 0x27]
       @ '' -exec ansible-playbook --syntax-check {} '' @ [CHR 0x5C] @ '';''"

definition run_syntax :: "world \<Rightarrow> string option \<Rightarrow> state \<Rightarrow> StageResult \<times> state" where
  "run_syntax w rl s0 =
    (let (start, s1) = time_now w s0;
         nm = (if truthy rl then ''syntax:'' @ the rl else ''syntax:all'');
         cmd_opt =
           (if truthy rl then
              (if path_exists w (converge_path w (the rl))
               then Some (''ansible-playbook --syntax-check '' @ converge_path w (the rl))
               else None)
            else Some find_playbooks_cmd)
     in case cmd_opt of
          None \<Rightarrow>
            (\<lparr>name = nm, status = SKIPPED, duration = 0, output' = ''No converge.yml found'',
              error = '''', command = '''', role = the rl\<rparr>, s1)
        | Some cmd \<Rightarrow>
            let ((returncode, stdout, stderr), s2) = run_command w cmd None None s1;
                st = (if returncode = 0 then PASSED else FAILED);
                (finish, s3) = time_now w s2
            in (\<lparr>name = nm, status = st, duration = finish - start, output' = stdout,
                 error = stderr, command = cmd,
                 role = (if truthy rl then the rl else ''all'')\<rparr>, s3))"

text \<open>\<^verbatim>\<open>run_molecule(role, scenario="default")\<close>; the role is always a string.\<close>

definition run_molecule :: "world \<Rightarrow> string \<Rightarrow> string \<Rightarrow> state \<Rightarrow> StageResult \<times> state" where
  "run_molecule w r scenario s0 =
    (let (start, s1) = time_now w s0;
         nm = ''molecule:'' @ r @ '':'' @ scenario;
         cmd = ''molecule test -s '' @ scenario;
         ((returncode, stdout, stderr), s2) = run_command w cmd (Some (role_path w r)) None s1;
         st = (if returncode = 0 then PASSED else FAILED);
         (finish, s3) = time_now w s2
     in (\<lparr>name = nm, status = st, duration = finish - start, output' = stdout,
          error = stderr, command = cmd, role = r\<rparr>, s3))"

section \<open>Scheduler\<close>

text \<open>
  Running a runner once for each role of a list, in the list's order. The sequential
  scenario-test loop is this, over the discovered roles. A worker pool is modelled by the
  same loop over the roles in the order in which their futures complete
  (\<open>as_completed\<close> of the world): results are appended in completion order, and
  each task is taken as a whole.
\<close>

fun run_each ::
  "(string \<Rightarrow> state \<Rightarrow> StageResult \<times> state) \<Rightarrow> string list \<Rightarrow> state
     \<Rightarrow> StageResult list \<times> state" where
  "run_each f [] s = ([], s)"
| "run_each f (r # rs) s =
     (let (x, s') = f r s; (xs, s'') = run_each f rs s' in (x # xs, s''))"

text \<open>
  The loop of the \<^verbatim>\<open>"all"\<close> branch: \<^verbatim>\<open>results.extend(stage_results)\<close>, then
  \<^verbatim>\<open>break\<close> if any of the stage's results is \<^verbatim>\<open>FAILED\<close>. An exception of the
  recursive call ends the loop and propagates.
\<close>

fun all_loop ::
  "(string \<Rightarrow> state \<Rightarrow> pyerror + StageResult list \<times> state) \<Rightarrow> string list
     \<Rightarrow> StageResult list \<Rightarrow> state \<Rightarrow> pyerror + StageResult list \<times> state" where
  "all_loop run [] results s = Inr (results, s)"
| "all_loop run (st # sts) results s =
     (case run st s of
        Inl e \<Rightarrow> Inl e
      | Inr (stage_results, s') \<Rightarrow>
          if \<exists>r \<in> set stage_results. status r = FAILED
          then Inr (results @ stage_results, s')
          else all_loop run sts (results @ stage_results) s')"

lemma all_loop_cong [fundef_cong]:
  assumes "sts = sts'" "results = results'" "s = s'"
    and "\<And>st t. st \<in> set sts' \<Longrightarrow> f st t = g st t"
  shows "all_loop f sts results s = all_loop g sts' results' s'"
  using assms
  by (induction sts' arbitrary: sts results results' s s') (auto split: sum.splits)

text \<open>
  \<^verbatim>\<open>run_stage(stage, role=None, parallel=4)\<close>. \<^verbatim>\<open>ThreadPoolExecutor\<close> raises
  \<^verbatim>\<open>ValueError\<close> when \<^verbatim>\<open>max_workers\<close> is not positive; \<^verbatim>\<open>discover_roles\<close> is
  called before the pool is made. A stage name that matches no branch gives the empty list.
\<close>

function run_stage ::
  "world \<Rightarrow> string \<Rightarrow> string option \<Rightarrow> int \<Rightarrow> state \<Rightarrow> pyerror + StageResult list \<times> state" where
  "run_stage w stage rl parallel s =
    (if stage = ''lint'' then
       (if truthy rl then (let (r, s') = run_lint w rl s in Inr ([r], s'))
        else case discover_roles w of
               Inl e \<Rightarrow> Inl e
             | Inr roles \<Rightarrow>
                 if parallel \<le> 0 then Inl ValueError
                 else Inr (run_each (\<lambda>r. run_lint w (Some r))
                             (as_completed w (subprocess_calls s) roles) s))
     else if stage = ''syntax'' then
       (if truthy rl then (let (r, s') = run_syntax w rl s in Inr ([r], s'))
        else case discover_roles w of
               Inl e \<Rightarrow> Inl e
             | Inr roles \<Rightarrow>
                 if parallel \<le> 0 then Inl ValueError
                 else Inr (run_each (\<lambda>r. run_syntax w (Some r))
                             (as_completed w (subprocess_calls s) roles) s))
     else if stage = ''molecule'' then
       (if truthy rl then (let (r, s') = run_molecule w (the rl) ''default'' s in Inr ([r], s'))
        else case discover_roles w of
               Inl e \<Rightarrow> Inl e
             | Inr roles \<Rightarrow> Inr (run_each (\<lambda>r. run_molecule w r ''default'') roles s))
     else if stage = ''all'' then
       all_loop (\<lambda>st. run_stage w st rl parallel) [''lint'', ''syntax'', ''molecule''] [] s
     else Inr ([], s))"
  by pat_completeness auto
termination
  by (relation "measure (\<lambda>(w, stage, rl, parallel, s). if stage = ''all'' then 1 else 0)") auto

declare run_stage.simps [simp del]

section \<open>Result aggregator\<close>

text \<open>
  \<^verbatim>\<open>print_summary\<close> without its printing: the three counts
  \<^verbatim>\<open>sum(1 for r in self.results.stages if r.status == ...)\<close> and the four fields it
  stores.
\<close>

definition count_status :: "StageStatus \<Rightarrow> StageResult list \<Rightarrow> int" where
  "count_status st rs = sum_list (map (\<lambda>r. 1) (filter (\<lambda>r. status r = st) rs))"

definition print_summary :: "PipelineResult \<Rightarrow> PipelineResult" where
  "print_summary results =
    (let passed_n = count_status PASSED (stages results);
         failed_n = count_status FAILED (stages results);
         skipped_n = count_status SKIPPED (stages results)
     in results\<lparr>passed := passed_n, failed := failed_n, skipped := skipped_n,
          overall_status := (if failed_n = 0 then ''passed'' else ''failed'')\<rparr>)"

section \<open>Report generator\<close>

text \<open>The value that \<^verbatim>\<open>generate_report\<close> hands to \<^verbatim>\<open>json.dump\<close>.\<close>

datatype json =
  JString string | JInt int | JFloat real | JArray "json list" | JObject "(string \<times> json) list"

text \<open>\<^verbatim>\<open>s[:500] if s else ""\<close>\<close>

definition truncate_500 :: "string \<Rightarrow> string" where
  "truncate_500 s = (if s \<noteq> [] then take 500 s else [])"

definition report_stage :: "StageResult \<Rightarrow> json" where
  "report_stage s =
     JObject [(''name'', JString (name s)),
              (''status'', JString (StageStatus_value (status s))),
              (''duration'', JFloat (duration s)),
              (''role'', JString (role s)),
              (''command'', JString (command s)),
              (''output'', JString (truncate_500 (output' s))),
              (''error'', JString (truncate_500 (error s)))]"

definition report_data :: "PipelineResult \<Rightarrow> json" where
  "report_data results =
     JObject [(''start_time'', JString (start_time results)),
              (''end_time'', JString (end_time results)),
              (''total_duration'', JFloat (total_duration results)),
              (''passed'', JInt (passed results)),
              (''failed'', JInt (failed results)),
              (''skipped'', JInt (skipped results)),
              (''overall_status'', JString (overall_status results)),
              (''stages'', JArray (map report_stage (stages results)))]"

text \<open>Reading the value under a key of a JSON object.\<close>

fun json_get :: "json \<Rightarrow> string \<Rightarrow> json option" where
  "json_get (JObject kvs) k = map_of kvs k"
| "json_get (JString s) k = None"
| "json_get (JInt i) k = None"
| "json_get (JFloat x) k = None"
| "json_get (JArray xs) k = None"

text \<open>Decimal \<^verbatim>\<open>str\<close> of an integer, as an f-string renders it.\<close>

function str_nat :: "nat \<Rightarrow> string" where
  "str_nat n =
     (if n < 10 then [''0123456789'' ! n]
      else str_nat (n div 10) @ [''0123456789'' ! (n mod 10)])"
  by pat_completeness auto
termination
  by (relation "measure id") auto

declare str_nat.simps [simp del]

definition str_int :: "int \<Rightarrow> string" where
  "str_int i = (if i < 0 then ''-'' @ str_nat (nat (- i)) else str_nat (nat i))"

text \<open>
  \<^verbatim>\<open>_generate_junit_xml\<close>. The format specification \<^verbatim>\<open>:.2f\<close> of a float is the
  parameter \<open>fmt_2f\<close>. \<open>junit_testcase\<close> is what one pass of the loop appends to
  \<^verbatim>\<open>xml\<close>.
\<close>

definition junit_testcase :: "(real \<Rightarrow> string) \<Rightarrow> StageResult \<Rightarrow> string" where
  \<open>junit_testcase fmt_2f stage =
     ''  <testcase name="'' @ name stage @ ''" time="'' @ fmt_2f (duration stage) @ ''">\<newline>''
     @ (if status stage = FAILED then
          ''    <failure message="Stage failed">'' @ error stage @ ''</failure>\<newline>''
        else if status stage = SKIPPED then ''    <skipped/>\<newline>''
        else '''')
     @ ''  </testcase>\<newline>''\<close>

definition generate_junit_xml :: "(real \<Rightarrow> string) \<Rightarrow> PipelineResult \<Rightarrow> string" where
  \<open>generate_junit_xml fmt_2f results =
    (let tests = length (stages results);
         failures = failed results;
         time_total = total_duration results
     in ''<?xml version="1.0" encoding="UTF-8"?>\<newline>''
        @ ''<testsuite name="ansible-molecule-pipeline" tests="'' @ str_nat tests
        @ ''" failures="'' @ str_int failures @ ''" time="'' @ fmt_2f time_total @ ''">\<newline>''
        @ concat (map (junit_testcase fmt_2f) (stages results))
        @ ''</testsuite>\<newline>'')\<close>

section \<open>Concrete worlds and inputs\<close>

text \<open>
  A world in which nothing exists under \<^verbatim>\<open>roles_dir\<close>, every command succeeds
  silently and the clock shows the number of readings taken; the other worlds below are
  variations of it.
\<close>

definition base_world :: world where
  "base_world =
     \<lparr>project_root = ''/repo'', dry_run = False,
      path_join = (\<lambda>p n. p @ ''/'' @ n), path_exists = (\<lambda>p. False),
      roles_tree = None, os_environ = Map.empty,
      subprocess_run = (\<lambda>calls c. Completed 0 '''' ''''),
      time_time = (\<lambda>n. real n),
      as_completed = (\<lambda>calls rs. rs)\<rparr>"

definition state0 :: state where
  "state0 = \<lparr>subprocess_calls = [], clock_reads = 0\<rparr>"

text \<open>A world whose commands run too long, except \<^verbatim>\<open>nosuchtool\<close>, which cannot start.\<close>

definition failing_world :: world where
  "failing_world =
     base_world\<lparr>subprocess_run :=
       (\<lambda>calls c. if sp_command c = ''nosuchtool'' then Raised ''[Errno 2] No such file''
                   else TimeoutExpired)\<rparr>"

text \<open>Worlds for the static-check runner: one linter fails, the other passes.\<close>

definition lint_fail_world :: world where
  "lint_fail_world =
     base_world\<lparr>subprocess_run :=
       (\<lambda>calls c. if sp_command c = ''yamllint -c .yamllint.yml roles/''
                   then Completed 1 ''yaml-out'' ''yaml-err''
                   else Completed 0 ''ansible-out'' ''ansible-err'')\<rparr>"

definition ansible_fail_world :: world where
  "ansible_fail_world =
     base_world\<lparr>subprocess_run :=
       (\<lambda>calls c. if sp_command c = ''ansible-lint /repo/roles/net/ssh''
                   then Completed 2 ''ansible-out'' ''ansible-err''
                   else Completed 0 ''yaml-out'' ''yaml-err'')\<rparr>"

text \<open>A finished run with one result of each terminal status, before the summary.\<close>

definition mixed_results :: PipelineResult where
  "mixed_results =
     \<lparr>start_time = ''2024-01-01T00:00:00'', end_time = ''2024-01-01T00:00:09'',
      total_duration = 9,
      stages =
        [\<lparr>name = ''lint:net/ssh'', status = PASSED, duration = 1, output' = ''ok'',
          error = '''', command = ''yamllint -c .yamllint.yml roles/net/ssh'',
          role = ''net/ssh''\<rparr>,
         \<lparr>name = ''syntax:net/ssh'', status = SKIPPED, duration = 0,
          output' = ''No converge.yml found'', error = '''', command = '''',
          role = ''net/ssh''\<rparr>,
         \<lparr>name = ''molecule:net/ssh:default'', status = FAILED, duration = 8, output' = '''',
          error = ''converge failed'', command = ''molecule test -s default'',
          role = ''net/ssh''\<rparr>],
      passed = 0, failed = 0, skipped = 0, overall_status = ''pending''\<rparr>"

text \<open>The run that holds what the static-check stage returned for one failing unit.\<close>

definition lint_run_results :: PipelineResult where
  "lint_run_results =
     \<lparr>start_time = ''2024-01-01T00:00:00'', end_time = ''2024-01-01T00:00:01'',
      total_duration = 1,
      stages =
        [\<lparr>name = ''lint:net/ssh'', status = FAILED, duration = 1,
          output' = ''yaml-out\<newline>\<newline>Ansible-lint output:\<newline>ansible-out'',
          error = ''yaml-erransible-err'',
          command = ''yamllint -c .yamllint.yml /repo/roles/net/ssh'',
          role = ''net/ssh''\<rparr>],
      passed = 0, failed = 0, skipped = 0, overall_status = ''pending''\<rparr>"

text \<open>A finished run whose one stage failed with 501 characters of stderr.\<close>

definition long_error_run :: PipelineResult where
  "long_error_run =
     \<lparr>start_time = ''2024-01-01T00:00:00'', end_time = ''2024-01-01T00:00:00'',
      total_duration = 0,
      stages =
        [\<lparr>name = ''lint:all'', status = FAILED, duration = 0, output' = '''',
          error = replicate 501 (CHR ''E''), command = ''yamllint -c .yamllint.yml roles/'',
          role = ''all''\<rparr>],
      passed = 0, failed = 1, skipped = 0, overall_status = ''failed''\<rparr>"

text \<open>
  Two trees under \<^verbatim>\<open>roles_dir\<close>: in the first, \<^verbatim>\<open>net/ssh\<close> has no
  \<^verbatim>\<open>molecule/default\<close> but \<^verbatim>\<open>net/ssh/hardened\<close> has one; in the second nothing has.
\<close>

definition net_ssh_tree :: fsnode where
  "net_ssh_tree =
     Dir [(''net'',
           Dir [(''ssh'',
                 Dir [(''tasks'', Dir [(''main.yml'', File)]),
                      (''hardened'',
                       Dir [(''molecule'', Dir [(''default'', Dir [(''converge.yml'', File)])])])])])]"

definition no_marker_tree :: fsnode where
  "no_marker_tree =
     Dir [(''net'', Dir [(''ssh'', Dir [(''tasks'', Dir [(''main.yml'', File)])])]),
          (''README.md'', File)]"

section \<open>Properties of the command executor\<close>

text \<open>
  C6. In dry-run mode the executor returns exit code 0, the stdout text
  \<^verbatim>\<open>[DRY RUN] Would execute: <command>\<close> and empty stderr for every command, working
  directory and environment overlay, and it makes no call of \<^verbatim>\<open>subprocess.run\<close>: the
  state, with its list of calls, is returned as it was.
\<close>

theorem run_command_dry_run:
  assumes "dry_run w"
  shows "run_command w cmd cwd env s = ((0, ''[DRY RUN] Would execute: '' @ cmd, ''''), s)"
  using assms by (simp add: run_command_def)

theorem run_command_dry_run_witness:
  "dry_run (base_world\<lparr>dry_run := True\<rparr>)
   \<and> run_command (base_world\<lparr>dry_run := True\<rparr>) ''make test'' None None state0
       = ((0, ''[DRY RUN] Would execute: make test'', ''''), state0)"
  using run_command_dry_run [of "base_world\<lparr>dry_run := True\<rparr>" "''make test''" None None state0]
  by simp

text \<open>
  C5. Outside dry-run mode, for every command, working directory and environment overlay:
  when \<^verbatim>\<open>subprocess.run\<close> raises \<^verbatim>\<open>TimeoutExpired\<close> (the command ran longer than
  600 seconds) the executor returns exit code 1, empty stdout and the stderr text
  \<^verbatim>\<open>Command timed out after 600 seconds\<close>; when it raises any other exception the
  executor returns exit code 1, empty stdout and the exception's text as stderr. The
  executor is a total function into triples, so nothing propagates; the call it made is
  recorded.
\<close>

theorem run_command_failures:
  assumes "\<not> dry_run w"
  shows "(subprocess_run w (subprocess_calls s) (spawn_of w cmd cwd env) = TimeoutExpired
            \<longrightarrow> fst (run_command w cmd cwd env s)
                  = (1, '''', ''Command timed out after 600 seconds''))
       \<and> (subprocess_run w (subprocess_calls s) (spawn_of w cmd cwd env) = Raised msg
            \<longrightarrow> fst (run_command w cmd cwd env s) = (1, '''', msg))
       \<and> subprocess_calls (snd (run_command w cmd cwd env s))
           = subprocess_calls s @ [spawn_of w cmd cwd env]"
  using assms by (simp add: run_command_def Let_def split: proc_outcome.split)

theorem run_command_failures_witness:
  "\<not> dry_run failing_world
   \<and> fst (run_command failing_world ''sleep 700'' None None state0)
       = (1, '''', ''Command timed out after 600 seconds'')
   \<and> fst (run_command failing_world ''nosuchtool'' None None state0)
       = (1, '''', ''[Errno 2] No such file'')"
  using run_command_failures [of failing_world state0 "''sleep 700''" None None]
    run_command_failures [of failing_world state0 "''nosuchtool''" None None
      "''[Errno 2] No such file''"]
  by (simp add: failing_world_def base_world_def spawn_of_def state0_def)

section \<open>Properties of the stage runners\<close>

text \<open>
  C8. For every unit (a non-empty role string) whose \<^verbatim>\<open>molecule/default/converge.yml\<close>
  does not exist, the syntax-check runner returns the result with status \<^verbatim>\<open>SKIPPED\<close>,
  duration 0, the output text \<^verbatim>\<open>No converge.yml found\<close> and an empty command field;
  it has read the clock once and made no call of \<^verbatim>\<open>subprocess.run\<close>; and the scheduler
  returns this one result for the stage.
\<close>

theorem run_syntax_skipped:
  assumes "r \<noteq> []" and "\<not> path_exists w (converge_path w r)"
  shows "run_syntax w (Some r) s =
           (\<lparr>name = ''syntax:'' @ r, status = SKIPPED, duration = 0,
             output' = ''No converge.yml found'', error = '''', command = '''', role = r\<rparr>,
            s\<lparr>clock_reads := Suc (clock_reads s)\<rparr>)
       \<and> subprocess_calls (snd (run_syntax w (Some r) s)) = subprocess_calls s
       \<and> run_stage w ''syntax'' (Some r) parallel s = Inr ([fst (run_syntax w (Some r) s)], snd (run_syntax w (Some r) s))"
  using assms by (simp add: run_syntax_def time_now_def run_stage.simps split: prod.split)

theorem run_syntax_skipped_witness:
  "''net/ssh'' \<noteq> [] \<and> \<not> path_exists base_world (converge_path base_world ''net/ssh'')
   \<and> run_syntax base_world (Some ''net/ssh'') state0 =
           (\<lparr>name = ''syntax:net/ssh'', status = SKIPPED, duration = 0,
             output' = ''No converge.yml found'', error = '''', command = '''', role = ''net/ssh''\<rparr>,
            \<lparr>subprocess_calls = [], clock_reads = 1\<rparr>)"
  using run_syntax_skipped [of "''net/ssh''" base_world state0 4]
  by (simp add: base_world_def state0_def)

text \<open>
  C9, as the code has it. With the exit codes, stdout and stderr that the two linters
  return, the single result of the static-check runner is \<^verbatim>\<open>FAILED\<close> exactly when
  one of the exit codes is not zero, and \<^verbatim>\<open>PASSED\<close> otherwise. When the second linter
  (ansible-lint) returns non-zero, the result's output is the first linter's stdout, the
  separator \<^verbatim>\<open>\n\nAnsible-lint output:\n\<close> and the second linter's stdout, and its
  error is the two stderr texts joined. When the second linter returns zero, the output and
  error are the first linter's alone, also when the first linter failed.
\<close>

theorem run_lint_status:
  assumes "time_now w s0 = (start, s1)"
      and "run_command w (yamllint_cmd w rl) None None s1 = ((rc1, out1, err1), s2)"
      and "run_command w (ansible_lint_cmd w rl) None None s2 = ((rc2, out2, err2), s3)"
  shows "(status (fst (run_lint w rl s0)) = FAILED \<longleftrightarrow> rc1 \<noteq> 0 \<or> rc2 \<noteq> 0)
       \<and> (status (fst (run_lint w rl s0)) = PASSED \<longleftrightarrow> rc1 = 0 \<and> rc2 = 0)
       \<and> (rc2 \<noteq> 0 \<longrightarrow>
             output' (fst (run_lint w rl s0))
               = out1 @ ''\<newline>\<newline>Ansible-lint output:\<newline>'' @ out2
           \<and> error (fst (run_lint w rl s0)) = err1 @ err2)
       \<and> (rc2 = 0 \<longrightarrow>
             output' (fst (run_lint w rl s0)) = out1 \<and> error (fst (run_lint w rl s0)) = err1)"
  using assms by (simp add: run_lint_def Let_def split: prod.split)

theorem run_lint_status_witness:
  "time_now ansible_fail_world state0 = (0, \<lparr>subprocess_calls = [], clock_reads = 1\<rparr>)
   \<and> status (fst (run_lint ansible_fail_world (Some ''net/ssh'') state0)) = FAILED
   \<and> output' (fst (run_lint ansible_fail_world (Some ''net/ssh'') state0))
       = ''yaml-out\<newline>\<newline>Ansible-lint output:\<newline>ansible-out''
   \<and> error (fst (run_lint ansible_fail_world (Some ''net/ssh'') state0))
       = ''yaml-erransible-err''"
proof -
  let ?w = ansible_fail_world
  let ?c1 = "\<lparr>sp_command = ''yamllint -c .yamllint.yml /repo/roles/net/ssh'',
              sp_cwd = ''/repo'', sp_env = Map.empty\<rparr>"
  let ?c2 = "\<lparr>sp_command = ''ansible-lint /repo/roles/net/ssh'',
              sp_cwd = ''/repo'', sp_env = Map.empty\<rparr>"
  let ?s1 = "\<lparr>subprocess_calls = [], clock_reads = 1\<rparr>"
  let ?s2 = "\<lparr>subprocess_calls = [?c1], clock_reads = 1\<rparr>"
  let ?s3 = "\<lparr>subprocess_calls = [?c1, ?c2], clock_reads = 1\<rparr>"
  have t: "time_now ?w state0 = (0, ?s1)"
    by (simp add: time_now_def ansible_fail_world_def base_world_def state0_def)
  have a: "run_command ?w (yamllint_cmd ?w (Some ''net/ssh'')) None None ?s1
             = ((0, ''yaml-out'', ''yaml-err''), ?s2)"
    by (simp add: run_command_def yamllint_cmd_def role_path_def roles_dir_def spawn_of_def
          ansible_fail_world_def base_world_def)
  have b: "run_command ?w (ansible_lint_cmd ?w (Some ''net/ssh'')) None None ?s2
             = ((2, ''ansible-out'', ''ansible-err''), ?s3)"
    by (simp add: run_command_def ansible_lint_cmd_def role_path_def roles_dir_def spawn_of_def
          ansible_fail_world_def base_world_def)
  show ?thesis
    using t run_lint_status [OF t a b] by simp
qed

text \<open>
  The claim as stated fails where only the first linter fails: yamllint returns 1 and
  ansible-lint returns 0 with output of its own, and the result is \<^verbatim>\<open>FAILED\<close> with
  the first linter's stdout and stderr only.
\<close>

theorem run_lint_status_counterexample:
  "fst (run_command lint_fail_world (yamllint_cmd lint_fail_world None) None None state0)
     = (1, ''yaml-out'', ''yaml-err'')
   \<and> fst (run_command lint_fail_world (ansible_lint_cmd lint_fail_world None) None None state0)
     = (0, ''ansible-out'', ''ansible-err'')
   \<and> status (fst (run_lint lint_fail_world None state0)) = FAILED
   \<and> output' (fst (run_lint lint_fail_world None state0)) = ''yaml-out''
   \<and> error (fst (run_lint lint_fail_world None state0)) = ''yaml-err''"
  by (simp add: run_lint_def run_command_def lint_fail_world_def base_world_def state0_def
        yamllint_cmd_def ansible_lint_cmd_def spawn_of_def time_now_def Let_def)

text \<open>
  C10. In dry-run mode the static-check runner and the scenario-test runner return a
  \<^verbatim>\<open>PASSED\<close> result for every argument and state, and the syntax-check runner returns
  \<^verbatim>\<open>SKIPPED\<close> when it is given a unit whose \<^verbatim>\<open>converge.yml\<close> does not exist
  and \<^verbatim>\<open>PASSED\<close> otherwise: no runner returns \<^verbatim>\<open>FAILED\<close>.
\<close>

theorem dry_run_never_failed:
  assumes "dry_run w"
  shows "status (fst (run_lint w rl s)) = PASSED
       \<and> status (fst (run_molecule w r scenario s)) = PASSED
       \<and> status (fst (run_syntax w rl s))
           = (if truthy rl \<and> \<not> path_exists w (converge_path w (the rl)) then SKIPPED else PASSED)"
  using assms
  by (simp add: run_lint_def run_molecule_def run_syntax_def run_command_def time_now_def Let_def)

theorem dry_run_never_failed_witness:
  "dry_run (base_world\<lparr>dry_run := True\<rparr>)
   \<and> status (fst (run_lint (base_world\<lparr>dry_run := True\<rparr>) (Some ''net/ssh'') state0)) = PASSED
   \<and> status (fst (run_molecule (base_world\<lparr>dry_run := True\<rparr>) ''net/ssh'' ''default'' state0))
       = PASSED
   \<and> status (fst (run_syntax (base_world\<lparr>dry_run := True\<rparr>) (Some ''net/ssh'') state0))
       = SKIPPED
   \<and> status (fst (run_syntax (base_world\<lparr>dry_run := True\<rparr>) None state0)) = PASSED"
  using dry_run_never_failed [of "base_world\<lparr>dry_run := True\<rparr>" "Some ''net/ssh''" state0
      "''net/ssh''" "''default''"]
    dry_run_never_failed [of "base_world\<lparr>dry_run := True\<rparr>" None state0
      "''net/ssh''" "''default''"]
  by (simp add: base_world_def)

section \<open>Properties of the scheduler\<close>

text \<open>Every result that a runner, and so the scheduler, produces has a terminal status.\<close>

lemma run_lint_terminal: "status (fst (run_lint w rl s)) \<in> {PASSED, FAILED, SKIPPED}"
  by (simp add: run_lint_def Let_def split: prod.split)

lemma run_syntax_terminal: "status (fst (run_syntax w rl s)) \<in> {PASSED, FAILED, SKIPPED}"
  by (simp add: run_syntax_def Let_def split: prod.split option.split)

lemma run_molecule_terminal:
  "status (fst (run_molecule w r scenario s)) \<in> {PASSED, FAILED, SKIPPED}"
  by (simp add: run_molecule_def Let_def split: prod.split)

lemma run_each_all:
  assumes "\<And>r t. P (fst (f r t))"
  shows "\<forall>x \<in> set (fst (run_each f rs s)). P x"
proof (induction rs arbitrary: s)
  case Nil
  show ?case by simp
next
  case (Cons r rs)
  obtain x t where f: "f r s = (x, t)" by (cases "f r s")
  obtain xs u where e: "run_each f rs t = (xs, u)" by (cases "run_each f rs t")
  have "P x" using assms [of r s] f by simp
  moreover have "\<forall>y \<in> set xs. P y" using Cons.IH [of t] e by simp
  ultimately show ?case using f e by simp
qed

lemma all_loop_all:
  assumes "\<And>st t xs t'. st \<in> set sts \<Longrightarrow> run st t = Inr (xs, t') \<Longrightarrow> \<forall>x \<in> set xs. P x"
      and "\<forall>x \<in> set acc. P x"
      and "all_loop run sts acc s = Inr (rs, s')"
  shows "\<forall>x \<in> set rs. P x"
  using assms
proof (induction sts arbitrary: acc s)
  case Nil
  then show ?case by simp
next
  case (Cons st sts)
  show ?case
  proof (cases "run st s")
    case (Inl e)
    with Cons.prems(3) show ?thesis by simp
  next
    case (Inr p)
    obtain sr t where p: "p = (sr, t)" by (cases p)
    have sr: "\<forall>x \<in> set sr. P x" using Cons.prems(1) [of st s sr t] Inr p by simp
    have both: "\<forall>x \<in> set (acc @ sr). P x" using Cons.prems(2) sr by auto
    show ?thesis
    proof (cases "\<exists>r \<in> set sr. status r = FAILED")
      case True
      with Cons.prems(3) Inr p have "rs = acc @ sr" by simp
      with both show ?thesis by simp
    next
      case False
      with Cons.prems(3) Inr p have "all_loop run sts (acc @ sr) t = Inr (rs, s')" by simp
      moreover have "\<forall>x \<in> set xs. P x"
        if "st' \<in> set sts" "run st' t1 = Inr (xs, t2)" for st' t1 xs t2
        using Cons.prems(1) [of st' t1 xs t2] that by simp
      ultimately show ?thesis using Cons.IH [of "acc @ sr" t] both by blast
    qed
  qed
qed

lemma run_each_all_results:
  assumes "\<And>r t. P (fst (f r t))" and "run_each f rs s = (xs, s')"
  shows "\<forall>x \<in> set xs. P x"
  using run_each_all [of P f rs s, OF assms(1)] assms(2) by simp

lemma run_stage_single_terminal:
  assumes "stage \<noteq> ''all''" and "run_stage w stage rl parallel s = Inr (rs, s')"
  shows "\<forall>r \<in> set rs. status r \<in> {PASSED, FAILED, SKIPPED}"
proof -
  have l: "\<forall>x \<in> set ys. status x \<in> {PASSED, FAILED, SKIPPED}"
    if "run_each (\<lambda>r. run_lint w (Some r)) xs s = (ys, t)" for xs ys t
    using that by (rule run_each_all_results [rotated]) (rule run_lint_terminal)
  have y: "\<forall>x \<in> set ys. status x \<in> {PASSED, FAILED, SKIPPED}"
    if "run_each (\<lambda>r. run_syntax w (Some r)) xs s = (ys, t)" for xs ys t
    using that by (rule run_each_all_results [rotated]) (rule run_syntax_terminal)
  have m: "\<forall>x \<in> set ys. status x \<in> {PASSED, FAILED, SKIPPED}"
    if "run_each (\<lambda>r. run_molecule w r ''default'') xs s = (ys, t)" for xs ys t
    using that by (rule run_each_all_results [rotated]) (rule run_molecule_terminal)
  have l1: "status x \<in> {PASSED, FAILED, SKIPPED}" if "run_lint w rl s = (x, t)" for x t
    using run_lint_terminal [of w rl s] that by simp
  have y1: "status x \<in> {PASSED, FAILED, SKIPPED}" if "run_syntax w rl s = (x, t)" for x t
    using run_syntax_terminal [of w rl s] that by simp
  have m1: "status x \<in> {PASSED, FAILED, SKIPPED}"
    if "run_molecule w (the rl) ''default'' s = (x, t)" for x t
    using run_molecule_terminal [of w "the rl" "''default''" s] that by simp
  consider (c_lint) "stage = ''lint''" | (c_syntax) "stage = ''syntax''"
    | (c_molecule) "stage = ''molecule''"
    | (c_other) "stage \<noteq> ''lint''" "stage \<noteq> ''syntax''" "stage \<noteq> ''molecule''"
    by blast
  then show ?thesis
  proof cases
    case c_lint
    with assms(2) show ?thesis
      using l l1 by (subst (asm) run_stage.simps) (force split: if_splits sum.splits prod.splits)
  next
    case c_syntax
    with assms(2) show ?thesis
      using y y1 by (subst (asm) run_stage.simps) (force split: if_splits sum.splits prod.splits)
  next
    case c_molecule
    with assms(2) show ?thesis
      using m m1 by (subst (asm) run_stage.simps) (force split: if_splits sum.splits prod.splits)
  next
    case c_other
    with assms show ?thesis
      by (subst (asm) run_stage.simps) simp
  qed
qed

lemma run_stage_terminal:
  assumes "run_stage w stage rl parallel s = Inr (rs, s')"
  shows "\<forall>r \<in> set rs. status r \<in> {PASSED, FAILED, SKIPPED}"
proof (cases "stage = ''all''")
  case False
  then show ?thesis using assms by (rule run_stage_single_terminal)
next
  case True
  have loop: "all_loop (\<lambda>st. run_stage w st rl parallel) [''lint'', ''syntax'', ''molecule'']
                [] s = Inr (rs, s')"
    using assms True by (simp add: run_stage.simps [of w "''all''"])
  have step: "\<forall>x \<in> set xs. status x \<in> {PASSED, FAILED, SKIPPED}"
    if "st \<in> set [''lint'', ''syntax'', ''molecule'']"
       "run_stage w st rl parallel t = Inr (xs, t')" for st t xs t'
  proof -
    have "st \<noteq> ''all''" using that(1) by auto
    then show ?thesis using that(2) by (rule run_stage_single_terminal)
  qed
  have start: "\<forall>x \<in> set ([] :: StageResult list). status x \<in> {PASSED, FAILED, SKIPPED}"
    by simp
  show ?thesis
    by (rule all_loop_all [where P = "\<lambda>x. status x \<in> {PASSED, FAILED, SKIPPED}",
          OF step start loop])
qed

text \<open>
  C3. For every role argument, parallelism and state, stage \<^verbatim>\<open>all\<close> runs the
  static-check stage first. If that stage raises, so does \<^verbatim>\<open>all\<close>; if one of its
  results is \<^verbatim>\<open>FAILED\<close>, exactly its results are returned, with the state in which it
  ended, so that no later stage has run. Otherwise the syntax-check stage runs from that
  state, and in the same way the returned sequence is the results of the first two stages
  when one of the second's is \<^verbatim>\<open>FAILED\<close>; otherwise the scenario-test stage runs last
  and the results of all three stages are returned in this order.
\<close>

theorem run_stage_all:
  "run_stage w ''all'' rl parallel s =
     (case run_stage w ''lint'' rl parallel s of
        Inl e \<Rightarrow> Inl e
      | Inr (r1, s1) \<Rightarrow>
          if \<exists>r \<in> set r1. status r = FAILED then Inr (r1, s1)
          else (case run_stage w ''syntax'' rl parallel s1 of
                  Inl e \<Rightarrow> Inl e
                | Inr (r2, s2) \<Rightarrow>
                    if \<exists>r \<in> set r2. status r = FAILED then Inr (r1 @ r2, s2)
                    else (case run_stage w ''molecule'' rl parallel s2 of
                            Inl e \<Rightarrow> Inl e
                          | Inr (r3, s3) \<Rightarrow> Inr (r1 @ r2 @ r3, s3))))"
  by (subst run_stage.simps) (simp split: sum.split prod.split)

theorem run_stage_all_witness:
  "run_stage ansible_fail_world ''all'' (Some ''net/ssh'') 4 state0 =
     Inr ([\<lparr>name = ''lint:net/ssh'', status = FAILED, duration = 1,
            output' = ''yaml-out\<newline>\<newline>Ansible-lint output:\<newline>ansible-out'',
            error = ''yaml-erransible-err'',
            command = ''yamllint -c .yamllint.yml /repo/roles/net/ssh'',
            role = ''net/ssh''\<rparr>],
          \<lparr>subprocess_calls =
             [\<lparr>sp_command = ''yamllint -c .yamllint.yml /repo/roles/net/ssh'',
               sp_cwd = ''/repo'', sp_env = Map.empty\<rparr>,
              \<lparr>sp_command = ''ansible-lint /repo/roles/net/ssh'',
               sp_cwd = ''/repo'', sp_env = Map.empty\<rparr>],
           clock_reads = 2\<rparr>)"
  using run_stage_all [of ansible_fail_world "Some ''net/ssh''" 4 state0]
  by (simp add: run_stage.simps [of _ "''lint''"] run_lint_def run_command_def time_now_def
        yamllint_cmd_def ansible_lint_cmd_def role_path_def roles_dir_def spawn_of_def
        ansible_fail_world_def base_world_def state0_def Let_def)

section \<open>Properties of the result aggregator\<close>

lemma count_status_length:
  "count_status st rs = int (length (filter (\<lambda>r. status r = st) rs))"
  unfolding count_status_def by (induction rs) auto

lemma count_status_nonneg: "0 \<le> count_status st rs"
  by (simp add: count_status_length)

lemma count_status_total:
  assumes "\<forall>r \<in> set rs. status r \<in> {PASSED, FAILED, SKIPPED}"
  shows "count_status PASSED rs + count_status FAILED rs + count_status SKIPPED rs
           = int (length rs)"
  using assms unfolding count_status_length by (induction rs) auto

lemma count_status_failed_pos:
  "0 < count_status FAILED rs \<longleftrightarrow> (\<exists>r \<in> set rs. status r = FAILED)"
  by (simp add: count_status_length filter_empty_conv)

text \<open>
  C4. After \<^verbatim>\<open>print_summary\<close> the fields \<^verbatim>\<open>passed\<close>, \<^verbatim>\<open>failed\<close> and
  \<^verbatim>\<open>skipped\<close> are the numbers of results in \<^verbatim>\<open>stages\<close> with status
  \<^verbatim>\<open>PASSED\<close>, \<^verbatim>\<open>FAILED\<close> and \<^verbatim>\<open>SKIPPED\<close>; the result list and the time fields
  are as before; \<^verbatim>\<open>overall_status\<close> is \<^verbatim>\<open>failed\<close> exactly when the failed count is
  positive, which is exactly when some result is \<^verbatim>\<open>FAILED\<close>, and \<^verbatim>\<open>passed\<close> exactly
  when the failed count is zero. For every result sequence that the scheduler returned
  (the sequence the aggregator holds), and for every sequence whose statuses are all
  terminal, the three counts add up to the number of stages.
\<close>

theorem print_summary_counts:
  "passed (print_summary results)
     = int (length (filter (\<lambda>r. status r = PASSED) (stages results)))
   \<and> failed (print_summary results)
     = int (length (filter (\<lambda>r. status r = FAILED) (stages results)))
   \<and> skipped (print_summary results)
     = int (length (filter (\<lambda>r. status r = SKIPPED) (stages results)))
   \<and> stages (print_summary results) = stages results
   \<and> start_time (print_summary results) = start_time results
   \<and> end_time (print_summary results) = end_time results
   \<and> total_duration (print_summary results) = total_duration results
   \<and> (overall_status (print_summary results) = ''failed''
        \<longleftrightarrow> 0 < failed (print_summary results))
   \<and> (overall_status (print_summary results) = ''failed''
        \<longleftrightarrow> (\<exists>r \<in> set (stages results). status r = FAILED))
   \<and> (overall_status (print_summary results) = ''passed''
        \<longleftrightarrow> failed (print_summary results) = 0)
   \<and> (run_stage w stage rl parallel s = Inr (stages results, s') \<longrightarrow>
         passed (print_summary results) + failed (print_summary results)
           + skipped (print_summary results) = int (length (stages (print_summary results))))
   \<and> ((\<forall>r \<in> set (stages results). status r \<in> {PASSED, FAILED, SKIPPED}) \<longrightarrow>
         passed (print_summary results) + failed (print_summary results)
           + skipped (print_summary results) = int (length (stages (print_summary results))))"
proof -
  let ?rs = "stages results"
  have fields: "passed (print_summary results) = count_status PASSED ?rs"
    "failed (print_summary results) = count_status FAILED ?rs"
    "skipped (print_summary results) = count_status SKIPPED ?rs"
    "stages (print_summary results) = ?rs"
    "start_time (print_summary results) = start_time results"
    "end_time (print_summary results) = end_time results"
    "total_duration (print_summary results) = total_duration results"
    "overall_status (print_summary results)
       = (if count_status FAILED ?rs = 0 then ''passed'' else ''failed'')"
    by (simp_all add: print_summary_def Let_def)
  have nonneg: "0 \<le> count_status FAILED ?rs"
    by (rule count_status_nonneg)
  have pos: "0 < count_status FAILED ?rs \<longleftrightarrow> (\<exists>r \<in> set ?rs. status r = FAILED)"
    by (rule count_status_failed_pos)
  have total: "count_status PASSED ?rs + count_status FAILED ?rs + count_status SKIPPED ?rs
                 = int (length ?rs)"
    if "\<forall>r \<in> set ?rs. status r \<in> {PASSED, FAILED, SKIPPED}"
    using that by (rule count_status_total)
  have sched: "\<forall>r \<in> set ?rs. status r \<in> {PASSED, FAILED, SKIPPED}"
    if "run_stage w stage rl parallel s = Inr (?rs, s')"
    using that by (rule run_stage_terminal)
  have status_failed: "overall_status (print_summary results) = ''failed''
                         \<longleftrightarrow> 0 < count_status FAILED ?rs"
    using nonneg by (simp add: fields(8))
  have status_passed: "overall_status (print_summary results) = ''passed''
                         \<longleftrightarrow> count_status FAILED ?rs = 0"
    by (simp add: fields(8))
  show ?thesis
    unfolding fields(1-7) status_failed status_passed
    using pos total sched by (simp add: count_status_length)
qed

theorem print_summary_counts_witness:
  "run_stage ansible_fail_world ''lint'' (Some ''net/ssh'') 4 state0
     = Inr (stages lint_run_results,
            \<lparr>subprocess_calls =
               [\<lparr>sp_command = ''yamllint -c .yamllint.yml /repo/roles/net/ssh'',
                 sp_cwd = ''/repo'', sp_env = Map.empty\<rparr>,
                \<lparr>sp_command = ''ansible-lint /repo/roles/net/ssh'',
                 sp_cwd = ''/repo'', sp_env = Map.empty\<rparr>],
             clock_reads = 2\<rparr>)
   \<and> passed (print_summary lint_run_results) = 0
   \<and> failed (print_summary lint_run_results) = 1
   \<and> skipped (print_summary lint_run_results) = 0
   \<and> passed (print_summary lint_run_results) + failed (print_summary lint_run_results)
       + skipped (print_summary lint_run_results)
       = int (length (stages (print_summary lint_run_results)))
   \<and> overall_status (print_summary lint_run_results) = ''failed''
   \<and> map status (stages mixed_results) = [PASSED, SKIPPED, FAILED]
   \<and> passed (print_summary mixed_results) = 1
   \<and> failed (print_summary mixed_results) = 1
   \<and> skipped (print_summary mixed_results) = 1
   \<and> passed (print_summary mixed_results) + failed (print_summary mixed_results)
       + skipped (print_summary mixed_results) = 3
   \<and> overall_status (print_summary mixed_results) = ''failed''"
proof -
  let ?final = "\<lparr>subprocess_calls =
               [\<lparr>sp_command = ''yamllint -c .yamllint.yml /repo/roles/net/ssh'',
                 sp_cwd = ''/repo'', sp_env = Map.empty\<rparr>,
                \<lparr>sp_command = ''ansible-lint /repo/roles/net/ssh'',
                 sp_cwd = ''/repo'', sp_env = Map.empty\<rparr>],
             clock_reads = 2\<rparr>"
  have run: "run_stage ansible_fail_world ''lint'' (Some ''net/ssh'') 4 state0
               = Inr (stages lint_run_results, ?final)"
    by (simp add: run_stage.simps [of _ "''lint''"] run_lint_def run_command_def time_now_def
          yamllint_cmd_def ansible_lint_cmd_def role_path_def roles_dir_def spawn_of_def
          ansible_fail_world_def base_world_def state0_def lint_run_results_def Let_def)
  have l: "stages lint_run_results =
             [\<lparr>name = ''lint:net/ssh'', status = FAILED, duration = 1,
               output' = ''yaml-out\<newline>\<newline>Ansible-lint output:\<newline>ansible-out'',
               error = ''yaml-erransible-err'',
               command = ''yamllint -c .yamllint.yml /repo/roles/net/ssh'',
               role = ''net/ssh''\<rparr>]"
    by (simp add: lint_run_results_def)
  have m: "map status (stages mixed_results) = [PASSED, SKIPPED, FAILED]"
    by (simp add: mixed_results_def)
  have t: "\<forall>r \<in> set (stages mixed_results). status r \<in> {PASSED, FAILED, SKIPPED}"
    by (simp add: mixed_results_def)
  have ml: "stages mixed_results =
        [\<lparr>name = ''lint:net/ssh'', status = PASSED, duration = 1, output' = ''ok'',
          error = '''', command = ''yamllint -c .yamllint.yml roles/net/ssh'',
          role = ''net/ssh''\<rparr>,
         \<lparr>name = ''syntax:net/ssh'', status = SKIPPED, duration = 0,
          output' = ''No converge.yml found'', error = '''', command = '''',
          role = ''net/ssh''\<rparr>,
         \<lparr>name = ''molecule:net/ssh:default'', status = FAILED, duration = 8, output' = '''',
          error = ''converge failed'', command = ''molecule test -s default'',
          role = ''net/ssh''\<rparr>]"
    by (simp add: mixed_results_def)
  note a = print_summary_counts [of lint_run_results ansible_fail_world "''lint''"
      "Some ''net/ssh''" 4 state0 ?final]
  note b = print_summary_counts [of mixed_results ansible_fail_world "''lint''"
      "Some ''net/ssh''" 4 state0 ?final]
  have a': "passed (print_summary lint_run_results) = 0"
    "failed (print_summary lint_run_results) = 1"
    "skipped (print_summary lint_run_results) = 0"
    "overall_status (print_summary lint_run_results) = ''failed''"
    "passed (print_summary lint_run_results) + failed (print_summary lint_run_results)
       + skipped (print_summary lint_run_results)
       = int (length (stages (print_summary lint_run_results)))"
    using a run by (simp_all add: l)
  have b': "passed (print_summary mixed_results) = 1"
    "failed (print_summary mixed_results) = 1"
    "skipped (print_summary mixed_results) = 1"
    "overall_status (print_summary mixed_results) = ''failed''"
    "passed (print_summary mixed_results) + failed (print_summary mixed_results)
       + skipped (print_summary mixed_results) = 3"
    using b t by (simp_all add: ml)
  show ?thesis using run m a' b' by simp
qed

section \<open>Properties of the report generator\<close>

lemma truncate_500_take: "truncate_500 s = take 500 s"
  by (simp add: truncate_500_def)

lemma junit_testcase_failed:
  assumes "status s = FAILED"
  shows \<open>junit_testcase fmt s =
           (''  <testcase name="'' @ name s @ ''" time="'' @ fmt (duration s) @ ''">\<newline>    '')
           @ ''<failure message="Stage failed">'' @ error s @ ''</failure>\<newline>''
           @ ''  </testcase>\<newline>''\<close>
  using assms by (simp add: junit_testcase_def)

lemma junit_embeds_error:
  assumes "s \<in> set (stages results)" and "status s = FAILED"
  shows \<open>\<exists>pre post. generate_junit_xml fmt results =
           pre @ ''<failure message="Stage failed">'' @ error s @ ''</failure>\<newline>'' @ post\<close>
proof -
  obtain xs ys where split: "stages results = xs @ s # ys"
    using assms(1) by (meson split_list)
  define head where \<open>head =
     ''<?xml version="1.0" encoding="UTF-8"?>\<newline>''
     @ ''<testsuite name="ansible-molecule-pipeline" tests="'' @ str_nat (length (stages results))
     @ ''" failures="'' @ str_int (failed results) @ ''" time="''
     @ fmt (total_duration results) @ ''">\<newline>''\<close>
  define pre where \<open>pre = head @ concat (map (junit_testcase fmt) xs)
     @ (''  <testcase name="'' @ name s @ ''" time="'' @ fmt (duration s) @ ''">\<newline>    '')\<close>
  define post where \<open>post = ''  </testcase>\<newline>'' @ concat (map (junit_testcase fmt) ys)
     @ ''</testsuite>\<newline>''\<close>
  have \<open>generate_junit_xml fmt results =
          pre @ ''<failure message="Stage failed">'' @ error s @ ''</failure>\<newline>'' @ post\<close>
    unfolding generate_junit_xml_def Let_def pre_def post_def head_def split
    by (simp add: junit_testcase_failed [OF assms(2)])
  then show ?thesis by blast
qed

text \<open>
  C2, as the code has it. For every run, the \<^verbatim>\<open>stages\<close> array of the json report has
  exactly as many entries as the run's stages list, and the \<^verbatim>\<open>output\<close> and
  \<^verbatim>\<open>error\<close> of its entry \<open>i\<close> are the first 500 characters of the stdout and stderr
  of stage \<open>i\<close>, so at most 500 characters long. The junit report holds the stderr of
  every \<^verbatim>\<open>FAILED\<close> stage in full inside a \<^verbatim>\<open>failure\<close> element, whatever its
  length.
\<close>

theorem report_truncation:
  \<open>(\<exists>entries. json_get (report_data results) ''stages'' = Some (JArray entries)
       \<and> length entries = length (stages results)
       \<and> (\<forall>i < length (stages results).
             json_get (entries ! i) ''output''
               = Some (JString (take 500 (output' (stages results ! i))))
           \<and> json_get (entries ! i) ''error''
               = Some (JString (take 500 (error (stages results ! i))))
           \<and> length (take 500 (output' (stages results ! i))) \<le> 500
           \<and> length (take 500 (error (stages results ! i))) \<le> 500))
   \<and> (\<forall>s \<in> set (stages results). status s = FAILED \<longrightarrow>
         (\<exists>pre post. generate_junit_xml fmt results =
            pre @ ''<failure message="Stage failed">'' @ error s @ ''</failure>\<newline>'' @ post))\<close>
proof (intro conjI)
  show "\<exists>entries. json_get (report_data results) ''stages'' = Some (JArray entries)
       \<and> length entries = length (stages results)
       \<and> (\<forall>i < length (stages results).
             json_get (entries ! i) ''output''
               = Some (JString (take 500 (output' (stages results ! i))))
           \<and> json_get (entries ! i) ''error''
               = Some (JString (take 500 (error (stages results ! i))))
           \<and> length (take 500 (output' (stages results ! i))) \<le> 500
           \<and> length (take 500 (error (stages results ! i))) \<le> 500)"
    by (rule exI [of _ "map report_stage (stages results)"])
       (simp add: report_data_def report_stage_def truncate_500_take)
next
  show \<open>\<forall>s \<in> set (stages results). status s = FAILED \<longrightarrow>
         (\<exists>pre post. generate_junit_xml fmt results =
            pre @ ''<failure message="Stage failed">'' @ error s @ ''</failure>\<newline>'' @ post)\<close>
    using junit_embeds_error by blast
qed

theorem report_truncation_witness:
  \<open>length (stages long_error_run) = 1
   \<and> (\<exists>entries. json_get (report_data long_error_run) ''stages'' = Some (JArray entries)
         \<and> length entries = 1
         \<and> json_get (entries ! 0) ''output'' = Some (JString '''')
         \<and> json_get (entries ! 0) ''error'' = Some (JString (replicate 500 (CHR ''E''))))
   \<and> (\<exists>pre post. generate_junit_xml (\<lambda>d. ''0.00'') long_error_run =
         pre @ ''<failure message="Stage failed">'' @ replicate 501 (CHR ''E'')
           @ ''</failure>\<newline>'' @ post)\<close>
proof -
  let ?s = "\<lparr>name = ''lint:all'', status = FAILED, duration = 0, output' = '''',
             error = replicate 501 (CHR ''E''), command = ''yamllint -c .yamllint.yml roles/'',
             role = ''all''\<rparr>"
  have st: "stages long_error_run = [?s]"
    by (simp add: long_error_run_def)
  note inst = report_truncation [of long_error_run "\<lambda>d. ''0.00''"]
  from inst obtain entries where
    e: "json_get (report_data long_error_run) ''stages'' = Some (JArray entries)"
       "length entries = length (stages long_error_run)"
       "\<forall>i < length (stages long_error_run).
             json_get (entries ! i) ''output''
               = Some (JString (take 500 (output' (stages long_error_run ! i))))
           \<and> json_get (entries ! i) ''error''
               = Some (JString (take 500 (error (stages long_error_run ! i))))
           \<and> length (take 500 (output' (stages long_error_run ! i))) \<le> 500
           \<and> length (take 500 (error (stages long_error_run ! i))) \<le> 500"
    by blast
  have e0: "json_get (entries ! 0) ''output'' = Some (JString '''')
          \<and> json_get (entries ! 0) ''error'' = Some (JString (replicate 500 (CHR ''E'')))"
    using e(3) st by simp
  have j: \<open>\<exists>pre post. generate_junit_xml (\<lambda>d. ''0.00'') long_error_run =
         pre @ ''<failure message="Stage failed">'' @ replicate 501 (CHR ''E'')
           @ ''</failure>\<newline>'' @ post\<close>
    using inst st by simp
  show ?thesis using st e(1,2) e0 j by auto
qed

text \<open>
  The claim as stated fails for the junit format: a failed stage with 501 characters of
  stderr has all 501 of them in the junit document.
\<close>

theorem junit_error_not_truncated_counterexample:
  \<open>length (error (hd (stages long_error_run))) = 501
   \<and> generate_junit_xml (\<lambda>d. ''0.00'') long_error_run =
      ''<?xml version="1.0" encoding="UTF-8"?>\<newline>''
      @ ''<testsuite name="ansible-molecule-pipeline" tests="1" failures="1" time="0.00">\<newline>''
      @ ''  <testcase name="lint:all" time="0.00">\<newline>''
      @ ''    <failure message="Stage failed">'' @ replicate 501 (CHR ''E'') @ ''</failure>\<newline>''
      @ ''  </testcase>\<newline>''
      @ ''</testsuite>\<newline>''\<close>
  by (simp add: generate_junit_xml_def junit_testcase_def long_error_run_def
        str_int_def str_nat.simps [of "Suc 0"])

section \<open>Properties of unit discovery\<close>

text \<open>
  Two identifiers that start with names free of \<^verbatim>\<open>/\<close> and go on with nothing or with
  \<^verbatim>\<open>/\<close> have the same first name if they are equal.
\<close>

lemma segment_inj:
  assumes "CHR ''/'' \<notin> set u" and "CHR ''/'' \<notin> set u'"
      and "t = [] \<or> hd t = CHR ''/''" and "t' = [] \<or> hd t' = CHR ''/''"
      and "u @ t = u' @ t'"
  shows "u = u' \<and> t = t'"
  using assms
proof (induction u arbitrary: u')
  case Nil
  then show ?case by (cases u') auto
next
  case (Cons a u)
  then show ?case by (cases u') auto
qed

text \<open>
  Joining what a loop body appends for each entry of a directory gives no duplicates when
  each body gives none and bodies of entries with different names give different
  identifiers.
\<close>

lemma distinct_concat_map:
  assumes "distinct (map fst es)"
      and "\<And>e. e \<in> set es \<Longrightarrow> distinct (f e)"
      and "\<And>e e'. e \<in> set es \<Longrightarrow> e' \<in> set es \<Longrightarrow> fst e \<noteq> fst e'
             \<Longrightarrow> set (f e) \<inter> set (f e') = {}"
  shows "distinct (concat (map f es))"
  using assms
proof (induction es)
  case Nil
  show ?case by simp
next
  case (Cons e es)
  have "distinct (concat (map f es))"
    using Cons by simp
  moreover have "distinct (f e)"
    using Cons.prems(2) by simp
  moreover have "set (f e) \<inter> set (f e') = {}" if "e' \<in> set es" for e'
  proof -
    have "fst e \<noteq> fst e'" using Cons.prems(1) that by force
    then show ?thesis using Cons.prems(3) [of e e'] that by simp
  qed
  ultimately show ?case by auto
qed

text \<open>What each of the three loops records.\<close>

lemma in_subrole_roles:
  "x \<in> set (subrole_roles c u sub) \<longleftrightarrow>
     is_dir (snd sub) \<and> molecule_dir_exists (snd sub) \<and> x = c @ ''/'' @ u @ ''/'' @ fst sub"
  by (auto simp: subrole_roles_def)

lemma in_role_roles:
  "x \<in> set (role_roles c rl) \<longleftrightarrow>
     is_dir (snd rl) \<and>
     (if molecule_dir_exists (snd rl) then x = c @ ''/'' @ fst rl
      else (\<exists>sub \<in> set (entries (snd rl)).
              is_dir (snd sub) \<and> molecule_dir_exists (snd sub)
              \<and> x = c @ ''/'' @ fst rl @ ''/'' @ fst sub))"
  by (auto simp: role_roles_def in_subrole_roles)

lemma in_category_roles:
  "x \<in> set (category_roles cat) \<longleftrightarrow>
     is_dir (snd cat) \<and> \<not> startswith_dot (fst cat) \<and>
     (\<exists>rl \<in> set (entries (snd cat)). x \<in> set (role_roles (fst cat) rl))"
  by (auto simp: category_roles_def)

lemma wf_tree_entries:
  assumes "wf_tree n"
  shows "distinct (map fst (entries n))"
    and "\<And>e. e \<in> set (entries n) \<Longrightarrow> CHR ''/'' \<notin> set (fst e) \<and> wf_tree (snd e)"
  using assms by (cases n; simp)+

lemma distinct_role_roles:
  assumes "wf_tree (snd rl)"
  shows "distinct (role_roles c rl)"
proof -
  have "distinct (concat (map (subrole_roles c (fst rl)) (entries (snd rl))))"
  proof (rule distinct_concat_map)
    show "distinct (map fst (entries (snd rl)))"
      using assms by (rule wf_tree_entries)
    show "distinct (subrole_roles c (fst rl) e)" for e
      by (simp add: subrole_roles_def)
    show "set (subrole_roles c (fst rl) e) \<inter> set (subrole_roles c (fst rl) e') = {}"
      if "fst e \<noteq> fst e'" for e e'
      using that by (auto simp: in_subrole_roles)
  qed
  then show ?thesis by (simp add: role_roles_def)
qed

lemma role_roles_shape:
  assumes "x \<in> set (role_roles c rl)"
  shows "\<exists>t. x = c @ ''/'' @ fst rl @ t \<and> (t = [] \<or> hd t = CHR ''/'')"
proof (cases "molecule_dir_exists (snd rl)")
  case True
  with assms have "x = c @ ''/'' @ fst rl @ []" by (simp add: in_role_roles)
  then show ?thesis by blast
next
  case False
  with assms obtain sub where "x = c @ ''/'' @ fst rl @ (''/'' @ fst sub)"
    by (auto simp: in_role_roles)
  moreover have "hd (''/'' @ fst sub) = CHR ''/''" by simp
  ultimately show ?thesis by blast
qed

lemma distinct_category_roles:
  assumes "wf_tree (snd cat)"
  shows "distinct (category_roles cat)"
proof -
  have "distinct (concat (map (role_roles (fst cat)) (entries (snd cat))))"
  proof (rule distinct_concat_map)
    show "distinct (map fst (entries (snd cat)))"
      using assms by (rule wf_tree_entries)
    show "distinct (role_roles (fst cat) e)" if "e \<in> set (entries (snd cat))" for e
      using wf_tree_entries(2) [OF assms that] by (simp add: distinct_role_roles)
    show "set (role_roles (fst cat) e) \<inter> set (role_roles (fst cat) e') = {}"
      if e: "e \<in> set (entries (snd cat))" and e': "e' \<in> set (entries (snd cat))"
        and ne: "fst e \<noteq> fst e'" for e e'
    proof (rule ccontr)
      assume "set (role_roles (fst cat) e) \<inter> set (role_roles (fst cat) e') \<noteq> {}"
      then obtain x where x: "x \<in> set (role_roles (fst cat) e)"
          "x \<in> set (role_roles (fst cat) e')" by blast
      obtain t where t: "x = fst cat @ ''/'' @ fst e @ t" "t = [] \<or> hd t = CHR ''/''"
        using role_roles_shape [OF x(1)] by blast
      obtain t' where t': "x = fst cat @ ''/'' @ fst e' @ t'" "t' = [] \<or> hd t' = CHR ''/''"
        using role_roles_shape [OF x(2)] by blast
      have "fst e @ t = fst e' @ t'" using t(1) t'(1) by simp
      moreover have "CHR ''/'' \<notin> set (fst e)" "CHR ''/'' \<notin> set (fst e')"
        using wf_tree_entries(2) [OF assms e] wf_tree_entries(2) [OF assms e'] by simp_all
      ultimately have "fst e = fst e'" using segment_inj t(2) t'(2) by blast
      with ne show False by simp
    qed
  qed
  then show ?thesis by (simp add: category_roles_def)
qed

lemma category_roles_shape:
  assumes "x \<in> set (category_roles cat)"
  shows "\<exists>t. x = fst cat @ t \<and> hd t = CHR ''/''"
proof -
  from assms obtain rl where rl: "x \<in> set (role_roles (fst cat) rl)"
    unfolding in_category_roles by blast
  obtain t where "x = fst cat @ ''/'' @ fst rl @ t"
    using role_roles_shape [OF rl] by blast
  then have "x = fst cat @ (''/'' @ fst rl @ t)" by simp
  moreover have "hd (''/'' @ fst rl @ t) = CHR ''/''" by simp
  ultimately show ?thesis by blast
qed

lemma distinct_all_roles:
  assumes "wf_tree (Dir cats)"
  shows "distinct (concat (map category_roles cats))"
proof (rule distinct_concat_map)
  show "distinct (map fst cats)" using assms by simp
  show "distinct (category_roles e)" if "e \<in> set cats" for e
    using assms that by (simp add: distinct_category_roles)
  show "set (category_roles e) \<inter> set (category_roles e') = {}"
    if e: "e \<in> set cats" and e': "e' \<in> set cats" and ne: "fst e \<noteq> fst e'" for e e'
  proof (rule ccontr)
    assume "set (category_roles e) \<inter> set (category_roles e') \<noteq> {}"
    then obtain x where x: "x \<in> set (category_roles e)" "x \<in> set (category_roles e')"
      by blast
    obtain t where t: "x = fst e @ t" "hd t = CHR ''/''"
      using category_roles_shape [OF x(1)] by blast
    obtain t' where t': "x = fst e' @ t'" "hd t' = CHR ''/''"
      using category_roles_shape [OF x(2)] by blast
    have "fst e @ t = fst e' @ t'" using t(1) t'(1) by simp
    moreover have "CHR ''/'' \<notin> set (fst e)" "CHR ''/'' \<notin> set (fst e')"
      using assms e e' by simp_all
    ultimately have "fst e = fst e'" using segment_inj t(2) t'(2) by blast
    with ne show False by simp
  qed
qed

lemma in_all_roles:
  "x \<in> set (concat (map category_roles cats)) \<longleftrightarrow>
     (\<exists>cat \<in> set cats. is_dir (snd cat) \<and> \<not> startswith_dot (fst cat) \<and>
        (\<exists>rl \<in> set (entries (snd cat)). is_dir (snd rl) \<and>
           (if molecule_dir_exists (snd rl) then x = fst cat @ ''/'' @ fst rl
            else (\<exists>sub \<in> set (entries (snd rl)).
                    is_dir (snd sub) \<and> molecule_dir_exists (snd sub)
                    \<and> x = fst cat @ ''/'' @ fst rl @ ''/'' @ fst sub))))"
  by (simp add: in_category_roles in_role_roles)

text \<open>
  C7. For every directory tree at \<^verbatim>\<open>roles_dir\<close>, discovery returns a sequence that is
  sorted in lexicographic order and free of duplicates, and an identifier is in it exactly
  when it is \<^verbatim>\<open>category/unit\<close> for a unit directory with the marker path
  \<^verbatim>\<open>molecule/default\<close>, or \<^verbatim>\<open>category/unit/subunit\<close> for a unit directory without
  the marker path and a subunit directory of it with the marker path, in a category that
  is a directory whose name does not start with a dot; nothing deeper is recorded. For the
  tree in which \<^verbatim>\<open>net/ssh\<close> lacks the marker and \<^verbatim>\<open>net/ssh/hardened\<close> has it, the
  result is exactly \<^verbatim>\<open>["net/ssh/hardened"]\<close>.
\<close>

theorem discover_roles_spec:
  assumes "roles_tree w = Some (Dir cats)" and "wf_tree (Dir cats)"
  shows "(\<exists>rs. discover_roles w = Inr rs \<and> sorted rs \<and> distinct rs
           \<and> (\<forall>x. x \<in> set rs \<longleftrightarrow>
                 (\<exists>cat \<in> set cats. is_dir (snd cat) \<and> \<not> startswith_dot (fst cat) \<and>
                    (\<exists>rl \<in> set (entries (snd cat)). is_dir (snd rl) \<and>
                       (if molecule_dir_exists (snd rl) then x = fst cat @ ''/'' @ fst rl
                        else (\<exists>sub \<in> set (entries (snd rl)).
                                is_dir (snd sub) \<and> molecule_dir_exists (snd sub)
                                \<and> x = fst cat @ ''/'' @ fst rl @ ''/'' @ fst sub))))))
       \<and> discover_roles (w\<lparr>roles_tree := Some net_ssh_tree\<rparr>) = Inr [''net/ssh/hardened'']"
proof (intro conjI)
  let ?rs = "sort (concat (map category_roles cats))"
  have r: "discover_roles w = Inr ?rs"
    using assms(1) by (simp add: discover_roles_def)
  have d: "distinct ?rs"
    using distinct_all_roles [OF assms(2)] by simp
  have m: "\<forall>x. x \<in> set ?rs \<longleftrightarrow>
                 (\<exists>cat \<in> set cats. is_dir (snd cat) \<and> \<not> startswith_dot (fst cat) \<and>
                    (\<exists>rl \<in> set (entries (snd cat)). is_dir (snd rl) \<and>
                       (if molecule_dir_exists (snd rl) then x = fst cat @ ''/'' @ fst rl
                        else (\<exists>sub \<in> set (entries (snd rl)).
                                is_dir (snd sub) \<and> molecule_dir_exists (snd sub)
                                \<and> x = fst cat @ ''/'' @ fst rl @ ''/'' @ fst sub))))"
    using in_all_roles [of _ cats] by simp
  show "\<exists>rs. discover_roles w = Inr rs \<and> sorted rs \<and> distinct rs
           \<and> (\<forall>x. x \<in> set rs \<longleftrightarrow>
                 (\<exists>cat \<in> set cats. is_dir (snd cat) \<and> \<not> startswith_dot (fst cat) \<and>
                    (\<exists>rl \<in> set (entries (snd cat)). is_dir (snd rl) \<and>
                       (if molecule_dir_exists (snd rl) then x = fst cat @ ''/'' @ fst rl
                        else (\<exists>sub \<in> set (entries (snd rl)).
                                is_dir (snd sub) \<and> molecule_dir_exists (snd sub)
                                \<and> x = fst cat @ ''/'' @ fst rl @ ''/'' @ fst sub)))))"
    using r d m sorted_sort [of "concat (map category_roles cats)"] by blast
next
  show "discover_roles (w\<lparr>roles_tree := Some net_ssh_tree\<rparr>) = Inr [''net/ssh/hardened'']"
    by (simp add: discover_roles_def net_ssh_tree_def category_roles_def role_roles_def
          subrole_roles_def molecule_dir_exists_def)
qed

theorem discover_roles_spec_witness:
  "roles_tree (base_world\<lparr>roles_tree := Some net_ssh_tree\<rparr>) = Some net_ssh_tree
   \<and> wf_tree net_ssh_tree
   \<and> discover_roles (base_world\<lparr>roles_tree := Some net_ssh_tree\<rparr>)
       = Inr [''net/ssh/hardened'']"
proof -
  let ?w = "base_world\<lparr>roles_tree := Some net_ssh_tree\<rparr>"
  let ?cats = "[(''net'',
           Dir [(''ssh'',
                 Dir [(''tasks'', Dir [(''main.yml'', File)]),
                      (''hardened'',
                       Dir [(''molecule'', Dir [(''default'', Dir [(''converge.yml'', File)])])])])])]"
  have t: "net_ssh_tree = Dir ?cats" by (simp add: net_ssh_tree_def)
  have a: "roles_tree ?w = Some (Dir ?cats)" by (simp add: t)
  have b: "wf_tree (Dir ?cats)" by simp
  have "discover_roles (?w\<lparr>roles_tree := Some net_ssh_tree\<rparr>) = Inr [''net/ssh/hardened'']"
    using discover_roles_spec [OF a b] by blast
  then show ?thesis using a b t by simp
qed

text \<open>
  C1, as the code has it. When \<^verbatim>\<open>roles_dir\<close> does not exist, discovery raises
  \<^verbatim>\<open>FileNotFoundError\<close> (from \<^verbatim>\<open>iterdir\<close>). When it is a directory, discovery
  returns a sequence and raises nothing, and the sequence is empty when no unit and no
  subunit has the marker path.
\<close>

theorem discover_roles_no_results:
  "(roles_tree w = None \<longrightarrow> discover_roles w = Inl FileNotFoundError)
   \<and> (\<forall>cats. roles_tree w = Some (Dir cats) \<longrightarrow>
         (\<exists>rs. discover_roles w = Inr rs)
         \<and> ((\<forall>cat \<in> set cats. \<forall>rl \<in> set (entries (snd cat)).
                \<not> molecule_dir_exists (snd rl)
                \<and> (\<forall>sub \<in> set (entries (snd rl)). \<not> molecule_dir_exists (snd sub)))
              \<longrightarrow> discover_roles w = Inr []))"
proof (intro conjI allI impI)
  assume "roles_tree w = None"
  then show "discover_roles w = Inl FileNotFoundError"
    by (simp add: discover_roles_def)
next
  fix cats assume "roles_tree w = Some (Dir cats)"
  then show "\<exists>rs. discover_roles w = Inr rs"
    by (simp add: discover_roles_def)
next
  fix cats
  assume root: "roles_tree w = Some (Dir cats)"
    and none: "\<forall>cat \<in> set cats. \<forall>rl \<in> set (entries (snd cat)).
                \<not> molecule_dir_exists (snd rl)
                \<and> (\<forall>sub \<in> set (entries (snd rl)). \<not> molecule_dir_exists (snd sub))"
  have "x \<notin> set (concat (map category_roles cats))" for x
    unfolding in_all_roles using none by (auto split: if_splits)
  then have e: "concat (map category_roles cats) = []"
    by (cases "concat (map category_roles cats)") (simp, metis list.set_intros(1))
  show "discover_roles w = Inr []"
    using root by (simp add: discover_roles_def e)
qed

theorem discover_roles_no_results_witness:
  "roles_tree (base_world\<lparr>roles_tree := Some no_marker_tree\<rparr>) = Some no_marker_tree
   \<and> discover_roles (base_world\<lparr>roles_tree := Some no_marker_tree\<rparr>) = Inr []
   \<and> discover_roles base_world = Inl FileNotFoundError"
proof -
  let ?w = "base_world\<lparr>roles_tree := Some no_marker_tree\<rparr>"
  let ?cats = "[(''net'', Dir [(''ssh'', Dir [(''tasks'', Dir [(''main.yml'', File)])])]),
          (''README.md'', File)]"
  have a: "roles_tree ?w = Some (Dir ?cats)" by (simp add: no_marker_tree_def)
  have n: "\<forall>cat \<in> set ?cats. \<forall>rl \<in> set (entries (snd cat)).
                \<not> molecule_dir_exists (snd rl)
                \<and> (\<forall>sub \<in> set (entries (snd rl)). \<not> molecule_dir_exists (snd sub))"
    by (simp add: molecule_dir_exists_def)
  have "discover_roles ?w = Inr []"
    using discover_roles_no_results [of ?w] a n by blast
  moreover have "discover_roles base_world = Inl FileNotFoundError"
    using discover_roles_no_results [of base_world] by (simp add: base_world_def)
  ultimately show ?thesis by simp
qed

text \<open>
  The claim as stated fails for a root directory that does not exist: discovery does not
  return the empty sequence there.
\<close>

theorem discover_roles_missing_root_counterexample:
  "roles_tree base_world = None
   \<and> discover_roles base_world = Inl FileNotFoundError
   \<and> discover_roles base_world \<noteq> Inr []"
  by (simp add: base_world_def discover_roles_def)

end
